theory Spec2Isabelle
  imports Complex_Main
begin

section \<open>JavaScript values and the operators graccQuery uses\<close>

text \<open>
  The script \<^verbatim>\<open>src/index.ts\<close> is TypeScript; its types are erased when it runs, and the
  body of the HTTP response is whatever \<^verbatim>\<open>res.json()\<close> parsed. The values are therefore
  modelled as they are at run time. Numbers are IEEE doubles in JavaScript: a finite number
  is the \<open>real\<close> it denotes, \<open>JInf True\<close> and \<open>JInf False\<close> are \<^verbatim>\<open>Infinity\<close> and
  \<^verbatim>\<open>-Infinity\<close>, and \<open>JNaN\<close> is \<^verbatim>\<open>NaN\<close>; the two zeros, which are equal, both falsy and
  serialised alike, are not told apart. An object is the list of its own properties in
  insertion order; \<^verbatim>\<open>JSON.parse\<close> lets a later duplicate key win.
\<close>

datatype jsval =
    JUndefined
  | JNull
  | JBool bool
  | JNum real
  | JInf bool
  | JNaN
  | JStr string
  | JArr "jsval list"
  | JObj "(string \<times> jsval) list"

text \<open>A rejected promise or a thrown exception, by the name of its constructor.\<close>

datatype js_error = TypeError | RangeError | SyntaxError | NetworkError

definition bnd :: "js_error + 'a \<Rightarrow> ('a \<Rightarrow> js_error + 'b) \<Rightarrow> js_error + 'b" where
  "bnd m f = (case m of Inl e \<Rightarrow> Inl e | Inr v \<Rightarrow> f v)"

text \<open>
  \<^verbatim>\<open>v.k\<close> for a property name \<open>k\<close> that no prototype defines (every name read in
  \<^verbatim>\<open>index.ts\<close> is such a name): reading a property of \<^verbatim>\<open>undefined\<close> or \<^verbatim>\<open>null\<close> throws a
  TypeError, an object yields its own property or \<^verbatim>\<open>undefined\<close>, any other value yields
  \<^verbatim>\<open>undefined\<close>.
\<close>

fun get_prop :: "jsval \<Rightarrow> string \<Rightarrow> js_error + jsval" where
  "get_prop JUndefined k = Inl TypeError"
| "get_prop JNull k = Inl TypeError"
| "get_prop (JObj kvs) k = Inr (case map_of (rev kvs) k of None \<Rightarrow> JUndefined | Some v \<Rightarrow> v)"
| "get_prop v k = Inr JUndefined"

text \<open>\<^verbatim>\<open>v.k1.k2...\<close>, left to right.\<close>

fun get_path :: "jsval \<Rightarrow> string list \<Rightarrow> js_error + jsval" where
  "get_path v [] = Inr v"
| "get_path v (k # ks) = bnd (get_prop v k) (\<lambda>u. get_path u ks)"

text \<open>
  ToString, as the operator \<^verbatim>\<open>+\<close> needs it. \<open>n2s\<close> is Number::toString, which is not
  modelled. An object parsed from JSON has no callable property of its own, so it converts
  through \<^verbatim>\<open>Object.prototype.toString\<close> unless an own key \<^verbatim>\<open>toString\<close> hides that method,
  in which case the conversion throws. An array converts through \<^verbatim>\<open>join\<close>, where
  \<^verbatim>\<open>undefined\<close> and \<^verbatim>\<open>null\<close> elements become empty strings.
\<close>

fun js_to_string :: "(real \<Rightarrow> string) \<Rightarrow> jsval \<Rightarrow> js_error + string"
  and js_join :: "(real \<Rightarrow> string) \<Rightarrow> jsval list \<Rightarrow> js_error + string" where
  "js_to_string n2s JUndefined = Inr ''undefined''"
| "js_to_string n2s JNull = Inr ''null''"
| "js_to_string n2s (JBool b) = Inr (if b then ''true'' else ''false'')"
| "js_to_string n2s (JNum x) = Inr (n2s x)"
| "js_to_string n2s (JInf positive) = Inr (if positive then ''Infinity'' else ''-Infinity'')"
| "js_to_string n2s JNaN = Inr ''NaN''"
| "js_to_string n2s (JStr s) = Inr s"
| "js_to_string n2s (JArr xs) = js_join n2s xs"
| "js_to_string n2s (JObj kvs) =
     (if ''toString'' \<in> set (map fst kvs) then Inl TypeError else Inr ''[object Object]'')"
| "js_join n2s [] = Inr []"
| "js_join n2s (x # xs) =
     (case (if x = JUndefined \<or> x = JNull then Inr [] else js_to_string n2s x) of
        Inl e \<Rightarrow> Inl e
      | Inr s \<Rightarrow>
          (if xs = [] then Inr s
           else (case js_join n2s xs of Inl e \<Rightarrow> Inl e | Inr t \<Rightarrow> Inr (s @ '','' @ t))))"

text \<open>ToPrimitive: arrays and objects become strings, primitives stay.\<close>

fun to_primitive :: "(real \<Rightarrow> string) \<Rightarrow> jsval \<Rightarrow> js_error + jsval" where
  "to_primitive n2s (JArr xs) = bnd (js_to_string n2s (JArr xs)) (\<lambda>s. Inr (JStr s))"
| "to_primitive n2s (JObj kvs) = bnd (js_to_string n2s (JObj kvs)) (\<lambda>s. Inr (JStr s))"
| "to_primitive n2s v = Inr v"

text \<open>
  The sum of two doubles is the exact sum rounded to the nearest double, ties to the even
  significand, and an infinity when the rounded magnitude reaches \<open>2\<^sup>1\<^sup>0\<^sup>2\<^sup>4\<close>. The doubles
  around \<open>x\<close> are the multiples of \<open>2\<close> to the power \<open>ulp_exponent x\<close>: 52 below the binary
  exponent of \<open>x\<close>, and \<open>-1074\<close> for the subnormal numbers. \<open>round_double\<close> gives \<open>None\<close> on
  overflow.
\<close>

definition ulp_exponent :: "real \<Rightarrow> int" where
  "ulp_exponent x = max \<lfloor>log 2 \<bar>x\<bar>\<rfloor> (- 1022) - 52"

definition round_ties_even :: "real \<Rightarrow> int" where
  "round_ties_even q =
     (let f = \<lfloor>q\<rfloor> in
      if q - of_int f < 1 / 2 then f
      else if 1 / 2 < q - of_int f then f + 1
      else if even f then f else f + 1)"

definition round_double :: "real \<Rightarrow> real option" where
  "round_double x =
     (if x = 0 then Some 0
      else
        (let u = 2 powi ulp_exponent x;
             r = of_int (round_ties_even (x / u)) * u
         in if 2 ^ 1024 \<le> \<bar>r\<bar> then None else Some r))"

text \<open>
  The numbers are the values \<open>JNum x\<close>, \<open>JInf s\<close> and \<open>JNaN\<close>. ToNumber of a primitive that
  is not a string yields one of them.
\<close>

fun is_number :: "jsval \<Rightarrow> bool" where
  "is_number (JNum x) = True"
| "is_number (JInf s) = True"
| "is_number JNaN = True"
| "is_number v = False"

fun to_number :: "jsval \<Rightarrow> jsval" where
  "to_number JNull = JNum 0"
| "to_number (JBool b) = JNum (if b then 1 else 0)"
| "to_number (JNum x) = JNum x"
| "to_number (JInf s) = JInf s"
| "to_number v = JNaN"

text \<open>The sum of two numbers.\<close>

fun num_add :: "jsval \<Rightarrow> jsval \<Rightarrow> jsval" where
  "num_add (JNum x) (JNum y) =
     (case round_double (x + y) of Some r \<Rightarrow> JNum r | None \<Rightarrow> JInf (0 < x + y))"
| "num_add (JInf s) (JInf t) = (if s = t then JInf s else JNaN)"
| "num_add (JInf s) (JNum y) = JInf s"
| "num_add (JNum x) (JInf t) = JInf t"
| "num_add a b = JNaN"

fun is_string :: "jsval \<Rightarrow> bool" where
  "is_string (JStr s) = True"
| "is_string v = False"

text \<open>The operator \<^verbatim>\<open>+\<close>: concatenation as soon as one primitive is a string.\<close>

definition js_plus :: "(real \<Rightarrow> string) \<Rightarrow> jsval \<Rightarrow> jsval \<Rightarrow> js_error + jsval" where
  "js_plus n2s a b =
     bnd (to_primitive n2s a) (\<lambda>pa.
     bnd (to_primitive n2s b) (\<lambda>pb.
       if is_string pa \<or> is_string pb then
         bnd (js_to_string n2s pa) (\<lambda>sa.
         bnd (js_to_string n2s pb) (\<lambda>sb. Inr (JStr (sa @ sb))))
       else Inr (num_add (to_number pa) (to_number pb))))"

text \<open>ToBoolean, which decides \<^verbatim>\<open>a || b\<close>.\<close>

fun truthy :: "jsval \<Rightarrow> bool" where
  "truthy JUndefined = False"
| "truthy JNull = False"
| "truthy (JBool b) = b"
| "truthy (JNum x) = (x \<noteq> 0)"
| "truthy (JInf s) = True"
| "truthy JNaN = False"
| "truthy (JStr s) = (s \<noteq> [])"
| "truthy (JArr xs) = True"
| "truthy (JObj kvs) = True"

text \<open>
  \<^verbatim>\<open>xs.reduce(f, init)\<close> and \<^verbatim>\<open>xs.map(f)\<close> on an array, with a callback that may throw.
\<close>

fun reduce_list :: "(jsval \<Rightarrow> jsval \<Rightarrow> js_error + jsval) \<Rightarrow> jsval \<Rightarrow> jsval list \<Rightarrow> js_error + jsval" where
  "reduce_list f acc [] = Inr acc"
| "reduce_list f acc (x # xs) =
     (case f acc x of Inl e \<Rightarrow> Inl e | Inr acc' \<Rightarrow> reduce_list f acc' xs)"

fun map_list :: "(jsval \<Rightarrow> js_error + 'a) \<Rightarrow> jsval list \<Rightarrow> js_error + 'a list" where
  "map_list f [] = Inr []"
| "map_list f (x # xs) =
     (case f x of
        Inl e \<Rightarrow> Inl e
      | Inr y \<Rightarrow> (case map_list f xs of Inl e \<Rightarrow> Inl e | Inr ys \<Rightarrow> Inr (y # ys)))"

text \<open>
  The method calls \<^verbatim>\<open>v.reduce(f, init)\<close> and \<^verbatim>\<open>v.map(f)\<close>: only an array has these
  methods, on any other value the call throws a TypeError.
\<close>

fun js_reduce :: "jsval \<Rightarrow> (jsval \<Rightarrow> jsval \<Rightarrow> js_error + jsval) \<Rightarrow> jsval \<Rightarrow> js_error + jsval" where
  "js_reduce (JArr xs) f init = reduce_list f init xs"
| "js_reduce v f init = Inl TypeError"

fun js_map :: "jsval \<Rightarrow> (jsval \<Rightarrow> js_error + 'a) \<Rightarrow> js_error + 'a list" where
  "js_map (JArr xs) f = map_list f xs"
| "js_map v f = Inl TypeError"

section \<open>The script: constants, types, environment\<close>

definition responseBodyOutputFile :: "string option" where
  "responseBodyOutputFile = Some ''responseOut.json''"

definition dataOutputFile :: "string option" where
  "dataOutputFile = Some ''dataOut.json''"

definition summaryIndex :: string where
  "summaryIndex = ''gracc.osg.summary''"

definition endpoint :: string where
  "endpoint = ''https://gracc.opensciencegrid.org:443/q''"

text \<open>
  The declared field types are \<^verbatim>\<open>string\<close> and \<^verbatim>\<open>number\<close>; what the fields hold at run
  time is what was read from the response, so they are JavaScript values here.
\<close>

record JobDataPoint =
  timestamp :: jsval
  nJobs :: jsval
  cpuHours :: jsval

record AnalysisResult =
  took :: jsval
  sumJobs :: jsval
  sumCpuHours :: jsval
  dataPoints :: "JobDataPoint list"

text \<open>The two object literals as JavaScript values, for \<^verbatim>\<open>JSON.stringify\<close>.\<close>

definition jsval_of_JobDataPoint :: "JobDataPoint \<Rightarrow> jsval" where
  "jsval_of_JobDataPoint p =
     JObj [(''timestamp'', timestamp p), (''nJobs'', nJobs p), (''cpuHours'', cpuHours p)]"

definition jsval_of_AnalysisResult :: "AnalysisResult \<Rightarrow> jsval" where
  "jsval_of_AnalysisResult r =
     JObj [(''took'', took r), (''sumJobs'', sumJobs r), (''sumCpuHours'', sumCpuHours r),
           (''dataPoints'', JArr (map jsval_of_JobDataPoint (dataPoints r)))]"

text \<open>
  A \<^verbatim>\<open>Date\<close> holds a time value in milliseconds, or NaN (\<open>None\<close>) when it is an Invalid Date.
  The arguments \<^verbatim>\<open>start\<close> and \<^verbatim>\<open>end\<close> have type \<^verbatim>\<open>string | Date\<close>.
\<close>

datatype Date = Date (time_value: "int option")

datatype string_or_Date = TString string | TDate Date

text \<open>
  The text \<^verbatim>\<open>JSON.stringify(v, null, indent)\<close> returns is not computed; it is denoted by
  the value serialised and the indentation.
\<close>

datatype json_text = JSON_stringify jsval "nat option"

record http_request =
  req_url :: string
  req_method :: string
  req_body :: json_text
  req_headers :: "(string \<times> string) list"

text \<open>
  Of a \<^verbatim>\<open>Response\<close> the script reads \<^verbatim>\<open>ok\<close> and calls \<^verbatim>\<open>json()\<close> once; that promise is
  rejected with a SyntaxError when the body is not JSON.
\<close>

record response =
  ok :: bool
  json :: "js_error + jsval"

text \<open>
  What the script takes from its runtime: the formatting of a valid time value by
  \<^verbatim>\<open>toISOString\<close>, Number::toString, and \<^verbatim>\<open>fetch\<close>, whose promise is rejected when no
  response arrives.
\<close>

record env =
  isoFormat :: "int \<Rightarrow> string"
  numToString :: "real \<Rightarrow> string"
  fetch :: "http_request \<Rightarrow> js_error + response"

text \<open>
  The effects: the HTTP requests issued, the console lines, and the \<^verbatim>\<open>fs.writeFile\<close>
  calls. A write is started and not awaited; its callback only prints \<open>wr_on_error\<close> if the
  write fails later.
\<close>

datatype console_entry = console_error jsval | console_log jsval

record fs_write =
  wr_file :: string
  wr_data :: json_text
  wr_on_error :: string

record world =
  requests :: "http_request list"
  console :: "console_entry list"
  writes :: "fs_write list"

section \<open>graccQuery\<close>

text \<open>\<^verbatim>\<open>d.toISOString()\<close> throws a RangeError on an Invalid Date.\<close>

definition toISOString :: "env \<Rightarrow> Date \<Rightarrow> js_error + string" where
  "toISOString e d = (case time_value d of None \<Rightarrow> Inl RangeError | Some t \<Rightarrow> Inr (isoFormat e t))"

text \<open>\<^verbatim>\<open>typeof x === "string" ? x : x.toISOString()\<close>\<close>

fun timeStr :: "env \<Rightarrow> string_or_Date \<Rightarrow> js_error + string" where
  "timeStr e (TString s) = Inr s"
| "timeStr e (TDate d) = toISOString e d"

text \<open>\<^verbatim>\<open>offset != null ? `-${offset}s` : null\<close>\<close>

definition offsetStr_of :: "env \<Rightarrow> real option \<Rightarrow> string option" where
  "offsetStr_of e offset =
     (case offset of Some n \<Rightarrow> Some (''-'' @ numToString e n @ ''s'') | None \<Rightarrow> None)"

text \<open>The object literal \<^verbatim>\<open>query\<close> (lines 36 to 98).\<close>

definition mk_query :: "string \<Rightarrow> string \<Rightarrow> string \<Rightarrow> string option \<Rightarrow> jsval" where
  "mk_query startStr endStr interval offsetStr =
     JObj [
       (''size'', JNum 100),
       (''query'', JObj [
         (''bool'', JObj [
           (''filter'', JArr [
             JObj [(''range'', JObj [
               (''EndTime'', JObj [(''gte'', JStr startStr), (''lt'', JStr endStr)])])],
             JObj [(''term'', JObj [(''ResourceType'', JStr ''Batch'')])],
             JObj [(''bool'', JObj [
               (''must_not'', JArr [
                 JObj [(''terms'', JObj [
                   (''SiteName'', JArr [JStr ''NONE'', JStr ''Generic'', JStr ''Obsolete''])])],
                 JObj [(''terms'', JObj [
                   (''VOName'', JArr [JStr ''Unknown'', JStr ''unknown'', JStr ''other''])])]])])]])])]),
       (''aggs'', JObj [
         (''EndTime'', JObj [
           (''date_histogram'', JObj [
             (''field'', JStr ''EndTime''),
             (''fixed_interval'', JStr interval),
             (''offset'', (case offsetStr of None \<Rightarrow> JUndefined | Some s \<Rightarrow> JStr s)),
             (''extended_bounds'', JObj [(''min'', JStr startStr), (''max'', JStr endStr)])]),
           (''aggs'', JObj [
             (''CoreHours'', JObj [(''sum'', JObj [(''field'', JStr ''CoreHours'')])]),
             (''Njobs'', JObj [(''sum'', JObj [(''field'', JStr ''Njobs'')])])])])])]"

text \<open>The request \<^verbatim>\<open>fetch\<close> is called with (lines 100 to 104).\<close>

definition mk_request :: "jsval \<Rightarrow> http_request" where
  "mk_request query =
     \<lparr>req_url = endpoint @ ''/'' @ summaryIndex @ ''/_search?pretty'',
      req_method = ''POST'',
      req_body = JSON_stringify query (Some 2),
      req_headers = [(''Content-Type'', ''application/json'')]\<rparr>"

text \<open>The four callbacks, in the order of the source.\<close>

definition hit_cb :: "(real \<Rightarrow> string) \<Rightarrow> jsval \<Rightarrow> jsval \<Rightarrow> js_error + jsval" where
  "hit_cb n2s acc hit = bnd (get_path hit [''_source'', ''CoreHours'']) (\<lambda>c. js_plus n2s acc c)"

definition njobs_cb :: "(real \<Rightarrow> string) \<Rightarrow> jsval \<Rightarrow> jsval \<Rightarrow> js_error + jsval" where
  "njobs_cb n2s acc bucket = bnd (get_path bucket [''Njobs'', ''value'']) (\<lambda>v. js_plus n2s acc v)"

text \<open>
  \<^verbatim>\<open>acc + bucket.CoreHours.value || bucket.doc_count\<close>: \<^verbatim>\<open>+\<close> binds tighter than \<^verbatim>\<open>||\<close>,
  and \<^verbatim>\<open>bucket.doc_count\<close> is read only when the sum is falsy.
\<close>

definition cpu_cb :: "(real \<Rightarrow> string) \<Rightarrow> jsval \<Rightarrow> jsval \<Rightarrow> js_error + jsval" where
  "cpu_cb n2s acc bucket =
     bnd (get_path bucket [''CoreHours'', ''value'']) (\<lambda>v.
     bnd (js_plus n2s acc v) (\<lambda>s.
       if truthy s then Inr s else get_prop bucket ''doc_count''))"

definition point_cb :: "jsval \<Rightarrow> js_error + JobDataPoint" where
  "point_cb bucket =
     bnd (get_prop bucket ''key_as_string'') (\<lambda>t.
     bnd (get_path bucket [''Njobs'', ''value'']) (\<lambda>n.
     bnd (get_path bucket [''CoreHours'', ''value'']) (\<lambda>c.
       Inr \<lparr>timestamp = t, nJobs = n, cpuHours = c\<rparr>)))"

text \<open>\<^verbatim>\<open>body.hits.hits.reduce(...)\<close> (lines 126 to 129).\<close>

definition totalJobs_of :: "(real \<Rightarrow> string) \<Rightarrow> jsval \<Rightarrow> js_error + jsval" where
  "totalJobs_of n2s body =
     bnd (get_path body [''hits'', ''hits'']) (\<lambda>hs. js_reduce hs (hit_cb n2s) (JNum 0))"

text \<open>"craft result" (lines 135 to 148).\<close>

definition craft_result :: "(real \<Rightarrow> string) \<Rightarrow> jsval \<Rightarrow> js_error + AnalysisResult" where
  "craft_result n2s body =
     bnd (get_path body [''aggregations'', ''EndTime'', ''buckets'']) (\<lambda>buckets.
     bnd (get_prop body ''took'') (\<lambda>t.
     bnd (js_reduce buckets (njobs_cb n2s) (JNum 0)) (\<lambda>sj.
     bnd (js_reduce buckets (cpu_cb n2s) (JNum 0)) (\<lambda>sc.
     bnd (js_map buckets point_cb) (\<lambda>dps.
       Inr \<lparr>took = t, sumJobs = sj, sumCpuHours = sc, dataPoints = dps\<rparr>)))))"

text \<open>\<^verbatim>\<open>if (f != null) fs.writeFile(f, text, (err) => { if (err) console.error(msg) })\<close>\<close>

definition write_if_set :: "string option \<Rightarrow> json_text \<Rightarrow> string \<Rightarrow> world \<Rightarrow> world" where
  "write_if_set f text msg w =
     (case f of
        None \<Rightarrow> w
      | Some name \<Rightarrow> w\<lparr>writes := writes w @ [\<lparr>wr_file = name, wr_data = text, wr_on_error = msg\<rparr>]\<rparr>)"

text \<open>
  The function. The result is \<open>Inl e\<close> when the promise is rejected with \<open>e\<close>, \<open>Inr None\<close>
  when it resolves to \<^verbatim>\<open>null\<close>, and \<open>Inr (Some r)\<close> when it resolves to the result \<open>r\<close>; the
  second component is the world after the effects performed up to that point.
\<close>

definition graccQuery ::
  "env \<Rightarrow> string_or_Date \<Rightarrow> string_or_Date \<Rightarrow> string \<Rightarrow> real option \<Rightarrow> world
     \<Rightarrow> (js_error + AnalysisResult option) \<times> world" where
  "graccQuery e start end_time interval offset w =
     (case timeStr e start of
        Inl err \<Rightarrow> (Inl err, w)
      | Inr startStr \<Rightarrow>
     (case timeStr e end_time of
        Inl err \<Rightarrow> (Inl err, w)
      | Inr endStr \<Rightarrow>
     (let offsetStr = offsetStr_of e offset;
          query = mk_query startStr endStr interval offsetStr;
          req = mk_request query;
          w1 = w\<lparr>requests := requests w @ [req]\<rparr>
      in
     (case fetch e req of
        Inl err \<Rightarrow> (Inl err, w1)
      | Inr res \<Rightarrow>
     (if \<not> ok res then
        (let w2 = w1\<lparr>console := console w1 @ [console_error (JStr ''GRACC query failed'')]\<rparr>
         in (case json res of
               Inl err \<Rightarrow> (Inl err, w2)
             | Inr v \<Rightarrow> (Inr None, w2\<lparr>console := console w2 @ [console_log v]\<rparr>)))
      else
     (case json res of
        Inl err \<Rightarrow> (Inl err, w1)
      | Inr body \<Rightarrow>
     (let w2 = write_if_set responseBodyOutputFile (JSON_stringify body None)
                 ''failed to write to response body output file'' w1
      in
     (case totalJobs_of (numToString e) body of
        Inl err \<Rightarrow> (Inl err, w2)
      | Inr totalJobs \<Rightarrow>
     (let w3 = w2\<lparr>console := console w2 @ [console_log totalJobs]\<rparr>
      in
     (case craft_result (numToString e) body of
        Inl err \<Rightarrow> (Inl err, w3)
      | Inr result \<Rightarrow>
     (let w4 = write_if_set dataOutputFile
                 (JSON_stringify (jsval_of_AnalysisResult result) (Some 2))
                 ''failed to write to data output file'' w3
      in (Inr (Some result), w4))))))))))))"

section \<open>The declared shape of an OK response\<close>

text \<open>
  Modelled from the spec: the declaration file \<^verbatim>\<open>response.d.ts\<close> with the type \<^verbatim>\<open>Root\<close>
  is not among the sources. \<^verbatim>\<open>index.ts\<close> asserts that the parsed body is a \<^verbatim>\<open>Root\<close> and
  reads from it \<^verbatim>\<open>took\<close>, \<^verbatim>\<open>hits.hits[]._source.CoreHours\<close> and, of each element of
  \<^verbatim>\<open>aggregations.EndTime.buckets\<close>, the fields \<^verbatim>\<open>key_as_string\<close>, \<^verbatim>\<open>doc_count\<close>,
  \<^verbatim>\<open>Njobs.value\<close> and \<^verbatim>\<open>CoreHours.value\<close>; the spec names the same three parts. The records
  hold these fields, numbers as numbers and the timestamp as a string.
\<close>

record Hit =
  source_CoreHours :: real

record Bucket =
  key_as_string :: string
  doc_count :: real
  Njobs_value :: real
  CoreHours_value :: real

record Root =
  root_took :: real
  hits_hits :: "Hit list"
  EndTime_buckets :: "Bucket list"

text \<open>
  A parsed body has the shape \<open>r\<close> when the reads the script performs find the values of
  \<open>r\<close>. The body may hold any further fields.
\<close>

definition Hit_shape :: "jsval \<Rightarrow> Hit \<Rightarrow> bool" where
  "Hit_shape v h \<longleftrightarrow> get_path v [''_source'', ''CoreHours''] = Inr (JNum (source_CoreHours h))"

definition Bucket_shape :: "jsval \<Rightarrow> Bucket \<Rightarrow> bool" where
  "Bucket_shape v b \<longleftrightarrow>
     get_prop v ''key_as_string'' = Inr (JStr (key_as_string b)) \<and>
     get_prop v ''doc_count'' = Inr (JNum (doc_count b)) \<and>
     get_path v [''Njobs'', ''value''] = Inr (JNum (Njobs_value b)) \<and>
     get_path v [''CoreHours'', ''value''] = Inr (JNum (CoreHours_value b))"

definition Root_shape :: "jsval \<Rightarrow> Root \<Rightarrow> bool" where
  "Root_shape body r \<longleftrightarrow>
     get_prop body ''took'' = Inr (JNum (root_took r)) \<and>
     (case get_path body [''hits'', ''hits''] of
        Inr (JArr hs) \<Rightarrow> list_all2 Hit_shape hs (hits_hits r)
      | _ \<Rightarrow> False) \<and>
     (case get_path body [''aggregations'', ''EndTime'', ''buckets''] of
        Inr (JArr bs) \<Rightarrow> list_all2 Bucket_shape bs (EndTime_buckets r)
      | _ \<Rightarrow> False)"

text \<open>
  What the three calls of \<^verbatim>\<open>reduce\<close> compute on numbers: the sum from left to right, and,
  for the second \<^verbatim>\<open>reduce\<close> over the buckets, \<^verbatim>\<open>(acc + CoreHours.value) || doc_count\<close> from
  left to right.
\<close>

fun sum_from :: "jsval \<Rightarrow> real list \<Rightarrow> jsval" where
  "sum_from acc [] = acc"
| "sum_from acc (x # xs) = sum_from (num_add acc (JNum x)) xs"

fun cpu_fold :: "jsval \<Rightarrow> Bucket list \<Rightarrow> jsval" where
  "cpu_fold acc [] = acc"
| "cpu_fold acc (b # bs) =
     cpu_fold (if truthy (num_add acc (JNum (CoreHours_value b)))
               then num_add acc (JNum (CoreHours_value b)) else JNum (doc_count b)) bs"

definition point_of :: "Bucket \<Rightarrow> JobDataPoint" where
  "point_of b =
     \<lparr>timestamp = JStr (key_as_string b), nJobs = JNum (Njobs_value b),
      cpuHours = JNum (CoreHours_value b)\<rparr>"

section \<open>Observing one invocation\<close>

text \<open>
  The request an invocation sends, and the response it receives from the environment:
  both as far as the invocation gets.
\<close>

definition request_of ::
  "env \<Rightarrow> string_or_Date \<Rightarrow> string_or_Date \<Rightarrow> string \<Rightarrow> real option \<Rightarrow> js_error + http_request" where
  "request_of e start end_time interval offset =
     bnd (timeStr e start) (\<lambda>startStr.
     bnd (timeStr e end_time) (\<lambda>endStr.
       Inr (mk_request (mk_query startStr endStr interval (offsetStr_of e offset)))))"

definition response_of ::
  "env \<Rightarrow> string_or_Date \<Rightarrow> string_or_Date \<Rightarrow> string \<Rightarrow> real option \<Rightarrow> js_error + response" where
  "response_of e start end_time interval offset =
     bnd (request_of e start end_time interval offset) (fetch e)"

text \<open>The value serialised into the body of a request.\<close>

fun query_of :: "http_request \<Rightarrow> jsval" where
  "query_of req = (case req_body req of JSON_stringify q indent \<Rightarrow> q)"

text \<open>Reading a nested value by keys and array indices; \<^verbatim>\<open>undefined\<close> where there is none.\<close>

datatype step = Key string | Idx nat

fun js_at :: "jsval \<Rightarrow> step list \<Rightarrow> jsval" where
  "js_at v [] = v"
| "js_at (JObj kvs) (Key k # p) =
     (case map_of (rev kvs) k of None \<Rightarrow> JUndefined | Some u \<Rightarrow> js_at u p)"
| "js_at (JArr xs) (Idx i # p) = (if i < length xs then js_at (xs ! i) p else JUndefined)"
| "js_at v p = JUndefined"

fun is_console_error :: "console_entry \<Rightarrow> bool" where
  "is_console_error (console_error v) = True"
| "is_console_error (console_log v) = False"

text \<open>Whether an access yielded an array, and two paths into the query.\<close>

fun is_array :: "js_error + jsval \<Rightarrow> bool" where
  "is_array (Inr (JArr xs)) = True"
| "is_array v = False"

definition filter_path :: "step list" where
  "filter_path = [Key ''query'', Key ''bool'', Key ''filter'']"

definition histogram_path :: "step list" where
  "histogram_path = [Key ''aggs'', Key ''EndTime'', Key ''date_histogram'']"

text \<open>The result on a body of shape \<open>r\<close>, in terms of \<open>r\<close>.\<close>

definition typed_result :: "Root \<Rightarrow> AnalysisResult" where
  "typed_result r =
     \<lparr>took = JNum (root_took r),
      sumJobs = sum_from (JNum 0) (map Njobs_value (EndTime_buckets r)),
      sumCpuHours = cpu_fold (JNum 0) (EndTime_buckets r),
      dataPoints = map point_of (EndTime_buckets r)\<rparr>"

section \<open>Sample inputs\<close>

text \<open>
  Concrete inputs for the closed theorems below. \<open>decimal\<close> prints the integer part of a
  number in decimal, which is what Number::toString prints for the whole numbers below
  \<open>10\<^sup>2\<^sup>1\<close>; the samples use it on such numbers only. The environment \<open>env_answering\<close>
  answers every request in the same way, and formats the one time value the samples use,
  1673464948000 ms.
\<close>

fun digits :: "nat \<Rightarrow> string" where
  "digits n =
     (if n < 10 then [''0123456789'' ! n] else digits (n div 10) @ [''0123456789'' ! (n mod 10)])"

definition decimal :: "real \<Rightarrow> string" where
  "decimal x = (if x < 0 then ''-'' @ digits (nat \<lfloor>- x\<rfloor>) else digits (nat \<lfloor>x\<rfloor>))"

definition env_answering :: "js_error + response \<Rightarrow> env" where
  "env_answering answer =
     \<lparr>isoFormat = (\<lambda>t. ''2023-01-11T19:22:28.000Z''), numToString = decimal,
      fetch = (\<lambda>req. answer)\<rparr>"

definition world0 :: world where
  "world0 = \<lparr>requests = [], console = [], writes = []\<rparr>"

definition sample_body :: jsval where
  "sample_body =
     JObj [
       (''took'', JNum 12),
       (''timed_out'', JBool False),
       (''hits'', JObj [
         (''hits'', JArr [
           JObj [(''_id'', JStr ''a1''), (''_source'', JObj [(''CoreHours'', JNum 3)])]])]),
       (''aggregations'', JObj [
         (''EndTime'', JObj [
           (''buckets'', JArr [
             JObj [(''key_as_string'', JStr ''2023-01-10T19:00:00.000Z''), (''doc_count'', JNum 2),
                   (''CoreHours'', JObj [(''value'', JNum 1.5)]),
                   (''Njobs'', JObj [(''value'', JNum 4)])],
             JObj [(''key_as_string'', JStr ''2023-01-10T20:00:00.000Z''), (''doc_count'', JNum 1),
                   (''CoreHours'', JObj [(''value'', JNum 2.5)]),
                   (''Njobs'', JObj [(''value'', JNum 3)])]])])])]"

definition sample_root :: Root where
  "sample_root =
     \<lparr>root_took = 12, hits_hits = [\<lparr>source_CoreHours = 3\<rparr>],
      EndTime_buckets = [
        \<lparr>key_as_string = ''2023-01-10T19:00:00.000Z'', doc_count = 2, Njobs_value = 4,
         CoreHours_value = 1.5\<rparr>,
        \<lparr>key_as_string = ''2023-01-10T20:00:00.000Z'', doc_count = 1, Njobs_value = 3,
         CoreHours_value = 2.5\<rparr>]\<rparr>"

definition sample_response :: response where
  "sample_response = \<lparr>ok = True, json = Inr sample_body\<rparr>"

definition idle_body :: jsval where
  "idle_body =
     JObj [
       (''took'', JNum 7),
       (''hits'', JObj [(''hits'', JArr [])]),
       (''aggregations'', JObj [
         (''EndTime'', JObj [
           (''buckets'', JArr [
             JObj [(''key_as_string'', JStr ''2023-01-10T19:00:00.000Z''), (''doc_count'', JNum 5),
                   (''CoreHours'', JObj [(''value'', JNum 0)]),
                   (''Njobs'', JObj [(''value'', JNum 5)])],
             JObj [(''key_as_string'', JStr ''2023-01-10T20:00:00.000Z''), (''doc_count'', JNum 1),
                   (''CoreHours'', JObj [(''value'', JNum 2)]),
                   (''Njobs'', JObj [(''value'', JNum 1)])]])])])]"

definition idle_response :: response where
  "idle_response = \<lparr>ok = True, json = Inr idle_body\<rparr>"

definition failed_response :: response where
  "failed_response =
     \<lparr>ok = False,
      json = Inr (JObj [(''error'', JStr ''parse_exception''), (''status'', JNum 400)])\<rparr>"

definition gateway_response :: response where
  "gateway_response = \<lparr>ok = False, json = Inl SyntaxError\<rparr>"

text \<open>More samples: a body with other hits, and a body without any of the fields.\<close>

definition other_hits_body :: jsval where
  "other_hits_body =
     JObj [
       (''took'', JNum 12),
       (''hits'', JObj [
         (''total'', JObj [(''value'', JNum 2)]),
         (''hits'', JArr [
           JObj [(''_source'', JObj [(''CoreHours'', JNum 10), (''Njobs'', JNum 1)])],
           JObj [(''_source'', JObj [(''CoreHours'', JNum 20), (''Njobs'', JNum 2)])]])]),
       (''aggregations'', JObj [
         (''EndTime'', JObj [
           (''buckets'', JArr [
             JObj [(''key_as_string'', JStr ''2023-01-10T19:00:00.000Z''), (''doc_count'', JNum 2),
                   (''CoreHours'', JObj [(''value'', JNum 1.5)]),
                   (''Njobs'', JObj [(''value'', JNum 4)])],
             JObj [(''key_as_string'', JStr ''2023-01-10T20:00:00.000Z''), (''doc_count'', JNum 1),
                   (''CoreHours'', JObj [(''value'', JNum 2.5)]),
                   (''Njobs'', JObj [(''value'', JNum 3)])]])])])]"

definition other_hits_root :: Root where
  "other_hits_root =
     sample_root\<lparr>hits_hits := [\<lparr>source_CoreHours = 10\<rparr>, \<lparr>source_CoreHours = 20\<rparr>]\<rparr>"

definition other_hits_response :: response where
  "other_hits_response = \<lparr>ok = True, json = Inr other_hits_body\<rparr>"

definition empty_response :: response where
  "empty_response = \<lparr>ok = True, json = Inr (JObj [])\<rparr>"

text \<open>Two bodies that differ only in \<^verbatim>\<open>hits.hits\<close>: no hit, and one hit without \<^verbatim>\<open>_source\<close>.\<close>

definition body_with_hits :: "jsval list \<Rightarrow> jsval" where
  "body_with_hits hs =
     JObj [
       (''took'', JNum 7),
       (''hits'', JObj [(''hits'', JArr hs)]),
       (''aggregations'', JObj [(''EndTime'', JObj [(''buckets'', JArr [])])])]"

definition response_with_hits :: "jsval list \<Rightarrow> response" where
  "response_with_hits hs = \<lparr>ok = True, json = Inr (body_with_hits hs)\<rparr>"

section \<open>Lemmas about the operators and the four callbacks\<close>

lemmas sample_defs =
  env_answering_def world0_def sample_body_def sample_root_def sample_response_def
  idle_body_def idle_response_def decimal_def failed_response_def gateway_response_def
  other_hits_body_def other_hits_root_def other_hits_response_def empty_response_def
  body_with_hits_def response_with_hits_def

lemmas run_defs =
  graccQuery_def request_of_def response_of_def mk_request_def write_if_set_def
  responseBodyOutputFile_def dataOutputFile_def totalJobs_of_def craft_result_def bnd_def
  hit_cb_def njobs_cb_def cpu_cb_def point_cb_def js_plus_def offsetStr_of_def
  toISOString_def

lemmas shape_defs = Root_shape_def Hit_shape_def Bucket_shape_def

subsection \<open>Numbers that are doubles are their own rounding\<close>

lemma round_ties_even_int: "round_ties_even (of_int n) = n"
  by (simp add: round_ties_even_def)

lemma ulp_exponent_le:
  fixes m :: int and k :: int
  assumes m: "\<bar>m\<bar> < 2 ^ 53" and m0: "m \<noteq> 0" and k: "- 1074 \<le> k"
  shows "ulp_exponent (of_int m * 2 powi k) \<le> k"
proof -
  let ?x = "of_int m * 2 powi k :: real"
  have pos: "0 < \<bar>?x\<bar>" using m0 by simp
  have "\<bar>?x\<bar> = of_int \<bar>m\<bar> * 2 powi k" by (simp add: abs_mult)
  also have "\<dots> < 2 ^ 53 * 2 powi k"
  proof -
    have "(of_int \<bar>m\<bar> :: real) < of_int (2 ^ 53)" using m by (simp only: of_int_less_iff)
    then show ?thesis by simp
  qed
  also have "\<dots> = 2 powi (53 + k)" by (simp add: power_int_add)
  finally have lt: "\<bar>?x\<bar> < 2 powi (53 + k)" .
  have p: "(2::real) powr of_int (53 + k) = 2 powi (53 + k)"
    by (rule powr_real_of_int') simp_all
  have "2 powr log 2 \<bar>?x\<bar> < 2 powr of_int (53 + k)"
    unfolding p using lt pos by simp
  then have "log 2 \<bar>?x\<bar> < of_int (53 + k)"
    using powr_less_cancel_iff[of 2 "log 2 \<bar>?x\<bar>" "of_int (53 + k)"] by linarith
  then have "\<lfloor>log 2 \<bar>?x\<bar>\<rfloor> < 53 + k"
    using floor_less_iff by blast
  then show ?thesis using k by (simp add: ulp_exponent_def)
qed

text \<open>
  A number \<open>m \<cdot> 2\<^sup>k\<close> with a significand of at most 53 bits, an exponent of at least \<open>-1074\<close>
  and a magnitude below \<open>2\<^sup>1\<^sup>0\<^sup>2\<^sup>4\<close> is a double, and rounding leaves it as it is.
\<close>

lemma round_double_exact:
  fixes m :: int and k :: int
  assumes m: "\<bar>m\<bar> < 2 ^ 53" and k: "- 1074 \<le> k"
    and b: "\<bar>of_int m * 2 powi k :: real\<bar> < 2 ^ 1024"
  shows "round_double (of_int m * 2 powi k) = Some (of_int m * 2 powi k)"
proof (cases "m = 0")
  case True
  then show ?thesis by (simp add: round_double_def)
next
  case False
  let ?x = "of_int m * 2 powi k :: real"
  define j where "j = ulp_exponent ?x"
  have jk: "j \<le> k" unfolding j_def by (rule ulp_exponent_le[OF m False k])
  have "?x / 2 powi j = of_int m * 2 powi (k - j)"
    by (simp add: power_int_diff)
  also have "(2::real) powi (k - j) = 2 ^ nat (k - j)"
    using jk by (simp add: power_int_def)
  finally have q: "?x / 2 powi j = of_int (m * 2 ^ nat (k - j))"
    by simp
  have "of_int (round_ties_even (?x / 2 powi j)) * 2 powi j = ?x / 2 powi j * 2 powi j"
    unfolding q round_ties_even_int ..
  then have r: "of_int (round_ties_even (?x / 2 powi j)) * 2 powi j = ?x"
    by simp
  have "?x \<noteq> 0" using False by simp
  then show ?thesis
    using b r unfolding round_double_def j_def[symmetric] Let_def by simp
qed

text \<open>The sums the sample inputs lead to.\<close>

lemma round_samples:
  "round_double 0 = Some 0"
  "round_double 2 = Some 2"
  "round_double 3 = Some 3"
  "round_double 4 = Some 4"
  "round_double 5 = Some 5"
  "round_double 6 = Some 6"
  "round_double 7 = Some 7"
  "round_double 10 = Some 10"
  "round_double 30 = Some 30"
  "round_double (3 / 2) = Some (3 / 2)"
  using round_double_exact[of 0 0] round_double_exact[of 2 0] round_double_exact[of 3 0]
    round_double_exact[of 4 0] round_double_exact[of 5 0] round_double_exact[of 6 0]
    round_double_exact[of 7 0] round_double_exact[of 10 0] round_double_exact[of 30 0]
    round_double_exact[of 3 "- 1"]
  by simp_all

text \<open>
  Where the exact sum is not a double: \<open>2\<^sup>5\<^sup>3 + 1\<close> is a tie and goes to the even
  neighbour, \<open>1 + 2\<^sup>-\<^sup>5\<^sup>3\<close> is a tie as well, and twice \<open>10\<^sup>3\<^sup>0\<^sup>8\<close> overflows.
\<close>

lemma num_add_tie_large:
  "num_add (JNum 9007199254740992) (JNum 1) = JNum 9007199254740992"
proof -
  have "\<lfloor>log 2 (9007199254740993::real)\<rfloor> = 53"
    by (simp add: floor_log_eq_powr_iff)
  then show ?thesis
    by (simp add: round_double_def ulp_exponent_def round_ties_even_def Let_def)
qed

lemma num_add_tie_small:
  "num_add (JNum 1) (JNum (1 / 9007199254740992)) = JNum 1"
proof -
  have "\<lfloor>log 2 (9007199254740993 / 9007199254740992 :: real)\<rfloor> = 0"
    by (simp add: floor_log_eq_powr_iff)
  then show ?thesis
    by (simp add: round_double_def ulp_exponent_def round_ties_even_def Let_def)
qed

lemma num_add_overflow:
  "num_add (JNum (10 ^ 308)) (JNum (10 ^ 308)) = JInf True"
proof -
  have "\<lfloor>log 2 (2 * 10 ^ 308 :: real)\<rfloor> = 1024"
    by (simp add: floor_log_eq_powr_iff)
  then show ?thesis
    by (simp add: round_double_def ulp_exponent_def round_ties_even_def Let_def)
qed

subsection \<open>The callbacks on bodies of the declared shape\<close>

lemma is_number_num_add: "is_number (num_add a b)"
  by (induction a b rule: num_add.induct) (auto split: option.splits)

lemma js_plus_number:
  "is_number a \<Longrightarrow> is_number b \<Longrightarrow> js_plus n2s a b = Inr (num_add a b)"
  by (cases a; cases b) (simp_all add: js_plus_def bnd_def)

lemma reduce_hits:
  "list_all2 Hit_shape hs hl \<Longrightarrow> is_number acc \<Longrightarrow>
   reduce_list (hit_cb n2s) acc hs = Inr (sum_from acc (map source_CoreHours hl))"
proof (induction hs hl arbitrary: acc rule: list_all2_induct)
  case Nil
  show ?case by simp
next
  case (Cons v vs h hl)
  have "hit_cb n2s acc v = Inr (num_add acc (JNum (source_CoreHours h)))"
    using Cons.hyps(1) Cons.prems
    by (simp add: hit_cb_def Hit_shape_def bnd_def js_plus_number)
  then show ?case using Cons.IH[OF is_number_num_add] by simp
qed

lemma reduce_njobs:
  "list_all2 Bucket_shape vs bs \<Longrightarrow> is_number acc \<Longrightarrow>
   reduce_list (njobs_cb n2s) acc vs = Inr (sum_from acc (map Njobs_value bs))"
proof (induction vs bs arbitrary: acc rule: list_all2_induct)
  case Nil
  show ?case by simp
next
  case (Cons v vs b bs)
  have "njobs_cb n2s acc v = Inr (num_add acc (JNum (Njobs_value b)))"
    using Cons.hyps(1) Cons.prems
    by (simp add: njobs_cb_def Bucket_shape_def bnd_def js_plus_number)
  then show ?case using Cons.IH[OF is_number_num_add] by simp
qed

lemma reduce_cpu:
  "list_all2 Bucket_shape vs bs \<Longrightarrow> is_number acc \<Longrightarrow>
   reduce_list (cpu_cb n2s) acc vs = Inr (cpu_fold acc bs)"
proof (induction vs bs arbitrary: acc rule: list_all2_induct)
  case Nil
  show ?case by simp
next
  case (Cons v vs b bs)
  let ?s = "num_add acc (JNum (CoreHours_value b))"
  have step: "cpu_cb n2s acc v = Inr (if truthy ?s then ?s else JNum (doc_count b))"
    using Cons.hyps(1) Cons.prems
    by (simp add: cpu_cb_def Bucket_shape_def bnd_def js_plus_number)
  have "is_number (if truthy ?s then ?s else JNum (doc_count b))"
    by (simp add: is_number_num_add)
  from Cons.IH[OF this] step show ?case by simp
qed

lemma map_points:
  "list_all2 Bucket_shape vs bs \<Longrightarrow> map_list point_cb vs = Inr (map point_of bs)"
proof (induction vs bs rule: list_all2_induct)
  case Nil
  show ?case by simp
next
  case (Cons v vs b bs)
  have "point_cb v = Inr (point_of b)"
    using Cons.hyps(1) by (simp add: point_cb_def point_of_def Bucket_shape_def bnd_def)
  then show ?case using Cons.IH by simp
qed

lemma Root_shape_hits:
  assumes "Root_shape body r"
  obtains hs where "get_path body [''hits'', ''hits''] = Inr (JArr hs)"
    and "list_all2 Hit_shape hs (hits_hits r)"
  using assms unfolding Root_shape_def by (auto split: sum.splits jsval.splits)

lemma Root_shape_buckets:
  assumes "Root_shape body r"
  obtains bs where "get_path body [''aggregations'', ''EndTime'', ''buckets''] = Inr (JArr bs)"
    and "list_all2 Bucket_shape bs (EndTime_buckets r)"
  using assms unfolding Root_shape_def by (auto split: sum.splits jsval.splits)

lemma totalJobs_shape:
  assumes "Root_shape body r"
  shows "totalJobs_of n2s body = Inr (sum_from (JNum 0) (map source_CoreHours (hits_hits r)))"
proof -
  from assms obtain hs where h: "get_path body [''hits'', ''hits''] = Inr (JArr hs)"
    and l: "list_all2 Hit_shape hs (hits_hits r)" by (rule Root_shape_hits)
  show ?thesis
    unfolding totalJobs_of_def h using reduce_hits[OF l, of "JNum 0" n2s] by (simp add: bnd_def)
qed

lemma craft_result_shape:
  assumes "Root_shape body r"
  shows "craft_result n2s body = Inr (typed_result r)"
proof -
  from assms obtain bs where
    h: "get_path body [''aggregations'', ''EndTime'', ''buckets''] = Inr (JArr bs)"
    and l: "list_all2 Bucket_shape bs (EndTime_buckets r)" by (rule Root_shape_buckets)
  have t: "get_prop body ''took'' = Inr (JNum (root_took r))"
    using assms by (simp add: Root_shape_def)
  show ?thesis
    unfolding craft_result_def h t typed_result_def
    using reduce_njobs[OF l, of "JNum 0" n2s] reduce_cpu[OF l, of "JNum 0" n2s] map_points[OF l]
    by (simp add: bnd_def)
qed

subsection \<open>The paths through graccQuery\<close>

lemma response_ofD:
  assumes "response_of e start end_time interval offset = Inr res"
  obtains startStr endStr where "timeStr e start = Inr startStr"
    and "timeStr e end_time = Inr endStr"
    and "request_of e start end_time interval offset =
           Inr (mk_request (mk_query startStr endStr interval (offsetStr_of e offset)))"
    and "fetch e (mk_request (mk_query startStr endStr interval (offsetStr_of e offset))) = Inr res"
  using assms unfolding response_of_def request_of_def bnd_def
  by (auto split: sum.splits)

lemma graccQuery_no_request:
  assumes "request_of e start end_time interval offset = Inl err"
  shows "graccQuery e start end_time interval offset w = (Inl err, w)"
  using assms unfolding request_of_def graccQuery_def bnd_def
  by (auto split: sum.splits)

lemma graccQuery_sent:
  assumes "request_of e start end_time interval offset = Inr req"
  shows "requests (snd (graccQuery e start end_time interval offset w)) = requests w @ [req]"
  using assms unfolding request_of_def graccQuery_def bnd_def write_if_set_def
  by (auto simp: Let_def split: sum.splits option.splits)

lemma graccQuery_no_response:
  assumes "request_of e start end_time interval offset = Inr req" and "fetch e req = Inl err"
  shows "graccQuery e start end_time interval offset w = (Inl err, w\<lparr>requests := requests w @ [req]\<rparr>)"
  using assms unfolding request_of_def graccQuery_def bnd_def
  by (auto simp: Let_def split: sum.splits)

lemma graccQuery_not_ok:
  assumes "response_of e start end_time interval offset = Inr res" and "\<not> ok res"
  shows "fst (graccQuery e start end_time interval offset w) =
           (case json res of Inl err \<Rightarrow> Inl err | Inr v \<Rightarrow> Inr None)"
    and "console (snd (graccQuery e start end_time interval offset w)) =
           console w @ console_error (JStr ''GRACC query failed'') #
             (case json res of Inl err \<Rightarrow> [] | Inr v \<Rightarrow> [console_log v])"
    and "writes (snd (graccQuery e start end_time interval offset w)) = writes w"
  using assms(1) assms(2) unfolding graccQuery_def
  by (auto elim!: response_ofD simp: Let_def split: sum.splits)

lemma graccQuery_ok_unparsed:
  assumes "response_of e start end_time interval offset = Inr res" and "ok res"
    and "json res = Inl err"
  shows "fst (graccQuery e start end_time interval offset w) = Inl err"
    and "console (snd (graccQuery e start end_time interval offset w)) = console w"
    and "writes (snd (graccQuery e start end_time interval offset w)) = writes w"
  using assms unfolding graccQuery_def
  by (auto elim!: response_ofD simp: Let_def split: sum.splits)

lemma graccQuery_ok_body:
  assumes "response_of e start end_time interval offset = Inr res" and "ok res"
    and "json res = Inr body"
  shows "fst (graccQuery e start end_time interval offset w) =
           bnd (totalJobs_of (numToString e) body) (\<lambda>totalJobs.
           bnd (craft_result (numToString e) body) (\<lambda>result. Inr (Some result)))"
    and "console (snd (graccQuery e start end_time interval offset w)) =
           console w @ (case totalJobs_of (numToString e) body of
                          Inl err \<Rightarrow> [] | Inr totalJobs \<Rightarrow> [console_log totalJobs])"
    and "writes (snd (graccQuery e start end_time interval offset w)) =
           writes w @
           \<lparr>wr_file = ''responseOut.json'', wr_data = JSON_stringify body None,
            wr_on_error = ''failed to write to response body output file''\<rparr> #
           (case bnd (totalJobs_of (numToString e) body) (\<lambda>totalJobs.
                   craft_result (numToString e) body) of
              Inl err \<Rightarrow> []
            | Inr result \<Rightarrow>
                [\<lparr>wr_file = ''dataOut.json'',
                  wr_data = JSON_stringify (jsval_of_AnalysisResult result) (Some 2),
                  wr_on_error = ''failed to write to data output file''\<rparr>])"
  using assms unfolding graccQuery_def
  by (auto elim!: response_ofD
       simp: Let_def bnd_def write_if_set_def responseBodyOutputFile_def dataOutputFile_def
       split: sum.splits)

lemma ok_run:
  assumes "response_of e start end_time interval offset = Inr res"
    and "ok res" and "json res = Inr body" and "Root_shape body r"
  shows "fst (graccQuery e start end_time interval offset w) = Inr (Some (typed_result r))"
  using graccQuery_ok_body(1)[OF assms(1-3)] totalJobs_shape[OF assms(4)]
    craft_result_shape[OF assms(4)]
  by (simp add: bnd_def)

lemma sample_answer:
  "response_of (env_answering (Inr res)) (TString s) (TString t) interval offset = Inr res"
  by (simp add: response_of_def request_of_def bnd_def env_answering_def)

lemma graccQuery_null_iff:
  assumes "response_of e start end_time interval offset = Inr res"
  shows "fst (graccQuery e start end_time interval offset w) = Inr None \<longleftrightarrow>
           \<not> ok res \<and> \<not> isl (json res)"
proof (cases "ok res")
  case False
  then show ?thesis
    using graccQuery_not_ok(1)[OF assms False, of w] by (auto split: sum.splits)
next
  case True
  show ?thesis
  proof (cases "json res")
    case (Inl err)
    then show ?thesis using graccQuery_ok_unparsed(1)[OF assms True Inl, of w] True by simp
  next
    case (Inr body)
    then show ?thesis
      using graccQuery_ok_body(1)[OF assms True Inr, of w] True
      by (auto simp: bnd_def split: sum.splits)
  qed
qed

lemma returned_result:
  assumes "response_of e start end_time interval offset = Inr res" and "ok res"
    and "json res = Inr body"
    and "fst (graccQuery e start end_time interval offset w) = Inr (Some result)"
  shows "craft_result (numToString e) body = Inr result"
  using graccQuery_ok_body(1)[OF assms(1-3), of w] assms(4)
  by (auto simp: bnd_def split: sum.splits)

subsection \<open>What a returned result was read from\<close>

lemma bnd_InrE:
  assumes "bnd m f = Inr y"
  obtains v where "m = Inr v" and "f v = Inr y"
  using assms unfolding bnd_def by (cases m) auto

lemma map_list_nth:
  "map_list f xs = Inr ys \<Longrightarrow>
   length ys = length xs \<and> (\<forall>i<length xs. f (xs ! i) = Inr (ys ! i))"
proof (induction xs arbitrary: ys)
  case Nil
  then show ?case by simp
next
  case (Cons x xs)
  from Cons.prems obtain y zs where y: "f x = Inr y" and zs: "map_list f xs = Inr zs"
    and ys: "ys = y # zs"
    by (auto split: sum.splits)
  from Cons.IH[OF zs] y ys show ?case
    by (auto simp: nth_Cons split: nat.splits)
qed

lemma point_cb_reads:
  assumes "point_cb v = Inr p"
  shows "get_prop v ''key_as_string'' = Inr (timestamp p) \<and>
         get_path v [''Njobs'', ''value''] = Inr (nJobs p) \<and>
         get_path v [''CoreHours'', ''value''] = Inr (cpuHours p)"
  using assms unfolding point_cb_def
  by (elim bnd_InrE) (auto simp del: get_path.simps)

lemma js_map_array:
  assumes "js_map v f = Inr ys"
  obtains xs where "v = JArr xs" and "map_list f xs = Inr ys"
  using assms by (cases v) auto

lemma craft_result_dataPoints:
  assumes "craft_result n2s body = Inr result"
  obtains bs where "get_path body [''aggregations'', ''EndTime'', ''buckets''] = Inr (JArr bs)"
    and "map_list point_cb bs = Inr (dataPoints result)"
  using assms unfolding craft_result_def
  by (elim bnd_InrE js_map_array) (auto simp del: get_path.simps)

lemma craft_result_reads:
  assumes "get_prop body1 ''took'' = get_prop body2 ''took''"
    and "get_path body1 [''aggregations'', ''EndTime'', ''buckets''] =
         get_path body2 [''aggregations'', ''EndTime'', ''buckets'']"
  shows "craft_result n2s body1 = craft_result n2s body2"
  unfolding craft_result_def assms ..

section \<open>Every exception of the success path is a TypeError\<close>

lemma js_to_string_error:
  "js_to_string n2s v = Inl err \<Longrightarrow> err = TypeError"
  "js_join n2s vs = Inl err \<Longrightarrow> err = TypeError"
  by (induction n2s v and n2s vs rule: js_to_string_js_join.induct)
     (auto split: if_splits sum.splits)

lemma get_prop_error: "get_prop v k = Inl err \<Longrightarrow> err = TypeError"
  by (cases v) auto

lemma bnd_InlE:
  assumes "bnd m f = Inl err"
  obtains "m = Inl err" | v where "m = Inr v" and "f v = Inl err"
  using assms unfolding bnd_def by (cases m) auto

lemma get_path_error: "get_path v ks = Inl err \<Longrightarrow> err = TypeError"
proof (induction ks arbitrary: v)
  case Nil
  then show ?case by simp
next
  case (Cons k ks)
  from Cons.prems have "bnd (get_prop v k) (\<lambda>u. get_path u ks) = Inl err" by simp
  then show ?case
    by (rule bnd_InlE) (blast dest: get_prop_error Cons.IH)+
qed

lemma to_primitive_error: "to_primitive n2s v = Inl err \<Longrightarrow> err = TypeError"
  by (cases v) (auto simp: bnd_def split: sum.splits if_splits dest: js_to_string_error)

lemma js_plus_error: "js_plus n2s a b = Inl err \<Longrightarrow> err = TypeError"
  unfolding js_plus_def bnd_def
  by (auto split: sum.splits if_splits option.splits
       dest: to_primitive_error js_to_string_error)

lemma reduce_list_error:
  "\<forall>acc x e. f acc x = Inl e \<longrightarrow> e = TypeError \<Longrightarrow> reduce_list f a xs = Inl err
     \<Longrightarrow> err = TypeError"
  by (induction xs arbitrary: a) (auto split: sum.splits)

lemma map_list_error:
  "\<forall>x e. f x = Inl e \<longrightarrow> e = TypeError \<Longrightarrow> map_list f xs = Inl err \<Longrightarrow> err = TypeError"
  by (induction xs) (auto split: sum.splits)

lemma js_reduce_error:
  "\<forall>acc x e. f acc x = Inl e \<longrightarrow> e = TypeError \<Longrightarrow> js_reduce v f a = Inl err
     \<Longrightarrow> err = TypeError"
  by (cases v) (auto dest: reduce_list_error)

lemma js_map_error:
  "\<forall>x e. f x = Inl e \<longrightarrow> e = TypeError \<Longrightarrow> js_map v f = Inl err \<Longrightarrow> err = TypeError"
  by (cases v) (auto dest: map_list_error)

lemma hit_cb_error: "hit_cb n2s acc x = Inl err \<Longrightarrow> err = TypeError"
  unfolding hit_cb_def
  by (erule bnd_InlE) (blast dest: get_path_error js_plus_error)+

lemma njobs_cb_error: "njobs_cb n2s acc x = Inl err \<Longrightarrow> err = TypeError"
  unfolding njobs_cb_def
  by (erule bnd_InlE) (blast dest: get_path_error js_plus_error)+

lemma cpu_cb_error: "cpu_cb n2s acc x = Inl err \<Longrightarrow> err = TypeError"
  unfolding cpu_cb_def
  by (elim bnd_InlE) (auto split: if_splits dest: get_path_error js_plus_error get_prop_error
        simp del: get_path.simps)

lemma point_cb_error: "point_cb x = Inl err \<Longrightarrow> err = TypeError"
  unfolding point_cb_def
  by (elim bnd_InlE) (auto dest: get_path_error get_prop_error simp del: get_path.simps)

lemma totalJobs_of_error: "totalJobs_of n2s body = Inl err \<Longrightarrow> err = TypeError"
proof -
  have cb: "\<forall>acc x e. hit_cb n2s acc x = Inl e \<longrightarrow> e = TypeError"
    by (blast dest: hit_cb_error)
  show "totalJobs_of n2s body = Inl err \<Longrightarrow> err = TypeError"
    unfolding totalJobs_of_def
    by (erule bnd_InlE) (blast dest: get_path_error js_reduce_error[OF cb])+
qed

lemma craft_result_error: "craft_result n2s body = Inl err \<Longrightarrow> err = TypeError"
proof -
  have n: "\<forall>acc x e. njobs_cb n2s acc x = Inl e \<longrightarrow> e = TypeError"
    by (blast dest: njobs_cb_error)
  have c: "\<forall>acc x e. cpu_cb n2s acc x = Inl e \<longrightarrow> e = TypeError"
    by (blast dest: cpu_cb_error)
  have p: "\<forall>x e. point_cb x = Inl e \<longrightarrow> e = TypeError"
    by (blast dest: point_cb_error)
  show "craft_result n2s body = Inl err \<Longrightarrow> err = TypeError"
    unfolding craft_result_def
    by (elim bnd_InlE)
       (blast dest: get_path_error get_prop_error js_reduce_error[OF n] js_reduce_error[OF c]
          js_map_error[OF p])+
qed

lemma totalJobs_of_no_array:
  "\<not> is_array (get_path body [''hits'', ''hits'']) \<Longrightarrow> isl (totalJobs_of n2s body)"
  unfolding totalJobs_of_def
  by (cases "get_path body [''hits'', ''hits'']" rule: is_array.cases) (simp_all add: bnd_def)

lemma craft_result_no_array:
  "\<not> is_array (get_path body [''aggregations'', ''EndTime'', ''buckets''])
     \<Longrightarrow> isl (craft_result n2s body)"
  unfolding craft_result_def
  by (cases "get_path body [''aggregations'', ''EndTime'', ''buckets'']" rule: is_array.cases)
     (auto simp: bnd_def split: sum.splits)

section \<open>Lemmas about the request\<close>

lemma timeStr_cases:
  "timeStr e x = Inr s \<Longrightarrow> (\<forall>t. x = TString t \<longrightarrow> s = t) \<and> (\<forall>d. x = TDate d \<longrightarrow> toISOString e d = Inr s)"
  by (cases x) auto

lemma timeStr_fails: "isl (timeStr e x) \<longleftrightarrow> x = TDate (Date None)"
  by (cases x; cases "case x of TDate d \<Rightarrow> d"; simp add: toISOString_def split: option.splits)

lemma request_of_fails:
  "isl (request_of e start end_time interval offset) \<longleftrightarrow>
     start = TDate (Date None) \<or> end_time = TDate (Date None)"
  using timeStr_fails[of e start] timeStr_fails[of e end_time]
  unfolding request_of_def bnd_def by (auto split: sum.splits)

lemma request_of_rendered:
  "timeStr e start = Inr startStr \<Longrightarrow> timeStr e end_time = Inr endStr \<Longrightarrow>
   request_of e start end_time interval offset =
     Inr (mk_request (mk_query startStr endStr interval (offsetStr_of e offset)))"
  by (simp add: request_of_def bnd_def)

section \<open>The claims\<close>

text \<open>
  In the theorems below \<open>res\<close> is the HTTP response the invocation receives
  (\<open>response_of \<dots> = Inr res\<close>) and \<open>body\<close> is what \<^verbatim>\<open>res.json()\<close> resolves to. The source
  relies on "body response is in form of Root" without checking it; \<open>Root_shape body r\<close>
  says that a body keeps to this, and the theorems say where they need it.
\<close>

subsection \<open>C1: the two sums\<close>

text \<open>
  C1 says that \<open>sumJobs\<close> is the sum of \<^verbatim>\<open>Njobs.value\<close> and \<open>sumCpuHours\<close> the sum of
  \<^verbatim>\<open>CoreHours.value\<close> over the buckets. The first \<^verbatim>\<open>reduce\<close> is that sum. The second is
  \<^verbatim>\<open>acc + bucket.CoreHours.value || bucket.doc_count\<close>, where \<^verbatim>\<open>+\<close> binds tighter than
  \<^verbatim>\<open>||\<close>: whenever the running total is zero it is replaced by the bucket's \<^verbatim>\<open>doc_count\<close>.
  C1 at a failing input: an hour with five records and no CPU hours, then an hour with one
  record and two CPU hours. The sum of \<^verbatim>\<open>CoreHours.value\<close> is 2, \<open>sumCpuHours\<close> is 7.
\<close>

theorem C1_failing_input:
  "ok idle_response \<and> json idle_response = Inr idle_body \<and>
   fst (graccQuery (env_answering (Inr idle_response)) (TString ''2023-01-10T19:22:28.000Z'')
          (TString ''2023-01-11T19:22:28.000Z'') ''1h'' None world0) =
     Inr (Some \<lparr>took = JNum 7, sumJobs = JNum 6, sumCpuHours = JNum 7,
                dataPoints = [\<lparr>timestamp = JStr ''2023-01-10T19:00:00.000Z'', nJobs = JNum 5,
                               cpuHours = JNum 0\<rparr>,
                              \<lparr>timestamp = JStr ''2023-01-10T20:00:00.000Z'', nJobs = JNum 1,
                               cpuHours = JNum 2\<rparr>]\<rparr>) \<and>
   sum_from (JNum 0) [0, 2] = JNum 2"
  by (simp add: run_defs sample_defs round_samples)

subsection \<open>C2: the data points\<close>

text \<open>
  C2. For every OK response body for which graccQuery returns a result,
  \<^verbatim>\<open>body.aggregations.EndTime.buckets\<close> is an array, \<open>dataPoints\<close> of the result has exactly
  one entry per bucket, in the order of the buckets, and entry \<open>i\<close> holds what
  \<^verbatim>\<open>key_as_string\<close>, \<^verbatim>\<open>Njobs.value\<close> and \<^verbatim>\<open>CoreHours.value\<close> read from bucket \<open>i\<close>.
\<close>

theorem C2_dataPoints:
  assumes "response_of e start end_time interval offset = Inr res"
    and "ok res" and "json res = Inr body"
    and "fst (graccQuery e start end_time interval offset w) = Inr (Some result)"
  shows "case get_path body [''aggregations'', ''EndTime'', ''buckets''] of
           Inr (JArr buckets) \<Rightarrow>
             length (dataPoints result) = length buckets \<and>
             (\<forall>i<length buckets.
                get_prop (buckets ! i) ''key_as_string'' =
                  Inr (timestamp (dataPoints result ! i)) \<and>
                get_path (buckets ! i) [''Njobs'', ''value''] =
                  Inr (nJobs (dataPoints result ! i)) \<and>
                get_path (buckets ! i) [''CoreHours'', ''value''] =
                  Inr (cpuHours (dataPoints result ! i)))
         | _ \<Rightarrow> False"
proof -
  have "craft_result (numToString e) body = Inr result"
    by (rule returned_result[OF assms])
  then obtain bs where
    b: "get_path body [''aggregations'', ''EndTime'', ''buckets''] = Inr (JArr bs)"
    and m: "map_list point_cb bs = Inr (dataPoints result)"
    by (rule craft_result_dataPoints)
  from map_list_nth[OF m] have n: "length (dataPoints result) = length bs"
    and p: "\<And>i. i < length bs \<Longrightarrow> point_cb (bs ! i) = Inr (dataPoints result ! i)"
    by simp_all
  show ?thesis
    unfolding b using n point_cb_reads[OF p] by (simp del: get_path.simps)
qed

text \<open>C2 at the sample response: two buckets, two data points.\<close>

theorem C2_dataPoints_witness:
  "ok sample_response \<and> json sample_response = Inr sample_body \<and>
   fst (graccQuery (env_answering (Inr sample_response))
          (TString ''2023-01-10T19:22:28.000Z'') (TString ''2023-01-11T19:22:28.000Z'')
          ''1h'' None world0) = Inr (Some (typed_result sample_root)) \<and>
   dataPoints (typed_result sample_root) =
     [\<lparr>timestamp = JStr ''2023-01-10T19:00:00.000Z'', nJobs = JNum 4, cpuHours = JNum (3 / 2)\<rparr>,
      \<lparr>timestamp = JStr ''2023-01-10T20:00:00.000Z'', nJobs = JNum 3, cpuHours = JNum (5 / 2)\<rparr>]"
proof -
  have a: "response_of (env_answering (Inr sample_response))
               (TString ''2023-01-10T19:22:28.000Z'') (TString ''2023-01-11T19:22:28.000Z'')
               ''1h'' None = Inr sample_response"
    by (rule sample_answer)
  have b: "ok sample_response" and c: "json sample_response = Inr sample_body"
    by (simp_all add: sample_response_def)
  have d: "Root_shape sample_body sample_root"
    by (simp add: shape_defs sample_body_def sample_root_def bnd_def)
  have r: "fst (graccQuery (env_answering (Inr sample_response))
          (TString ''2023-01-10T19:22:28.000Z'') (TString ''2023-01-11T19:22:28.000Z'')
          ''1h'' None world0) = Inr (Some (typed_result sample_root))"
    by (rule ok_run[OF a b c d])
  show ?thesis
    using b c r C2_dataPoints[OF a b c r]
    by (simp add: typed_result_def point_of_def sample_root_def)
qed

subsection \<open>C3: null if and only if the response is not OK\<close>

text \<open>
  C3 says that graccQuery returns \<^verbatim>\<open>null\<close> if and only if the response is not OK, after
  printing an error. It returns \<^verbatim>\<open>null\<close> only then (lemma \<open>graccQuery_null_iff\<close>), but not
  always then. C3 at a failing input: a response that is not OK and whose body is not JSON,
  such as the HTML page of a gateway. The script prints the error line, then
  \<^verbatim>\<open>await res.json()\<close> rejects, and the promise of graccQuery is rejected with a SyntaxError
  instead of resolving to \<^verbatim>\<open>null\<close>.
\<close>

theorem C3_failing_input:
  "\<not> ok gateway_response \<and>
   graccQuery (env_answering (Inr gateway_response)) (TString ''2023-01-10T19:22:28.000Z'')
     (TString ''2023-01-11T19:22:28.000Z'') ''1h'' None world0 =
   (Inl SyntaxError,
    \<lparr>requests = [mk_request (mk_query ''2023-01-10T19:22:28.000Z''
                   ''2023-01-11T19:22:28.000Z'' ''1h'' None)],
     console = [console_error (JStr ''GRACC query failed'')],
     writes = []\<rparr>)"
  by (simp add: graccQuery_def env_answering_def gateway_response_def world0_def
        offsetStr_of_def)

subsection \<open>C4: the query\<close>

text \<open>
  C4. Whenever the two time arguments render (\<open>startStr\<close> and \<open>endStr\<close>: a string is taken
  as it is, a \<^verbatim>\<open>Date\<close> through \<^verbatim>\<open>toISOString\<close>), graccQuery sends one request, and the query
  serialised into it has: as first filter a range on \<^verbatim>\<open>EndTime\<close> with \<^verbatim>\<open>gte = startStr\<close> and
  \<^verbatim>\<open>lt = endStr\<close>; as second filter the term \<^verbatim>\<open>ResourceType = "Batch"\<close>; as third filter the
  \<^verbatim>\<open>must_not\<close> exclusions of the three site names and the three VO names; and a
  \<^verbatim>\<open>date_histogram\<close> on \<^verbatim>\<open>EndTime\<close> whose sub-aggregations sum \<^verbatim>\<open>CoreHours\<close> and \<^verbatim>\<open>Njobs\<close>.
\<close>

theorem C4_query:
  assumes "timeStr e start = Inr startStr" and "timeStr e end_time = Inr endStr"
  shows "let sent = requests (snd (graccQuery e start end_time interval offset w));
             q = query_of (last sent)
         in length sent = Suc (length (requests w)) \<and>
            (\<forall>s. start = TString s \<longrightarrow> startStr = s) \<and>
            (\<forall>d. start = TDate d \<longrightarrow> toISOString e d = Inr startStr) \<and>
            (\<forall>s. end_time = TString s \<longrightarrow> endStr = s) \<and>
            (\<forall>d. end_time = TDate d \<longrightarrow> toISOString e d = Inr endStr) \<and>
            js_at q (filter_path @ [Idx 0, Key ''range'', Key ''EndTime'']) =
              JObj [(''gte'', JStr startStr), (''lt'', JStr endStr)] \<and>
            js_at q (filter_path @ [Idx 1, Key ''term'']) =
              JObj [(''ResourceType'', JStr ''Batch'')] \<and>
            js_at q (filter_path @ [Idx 2, Key ''bool'', Key ''must_not'']) =
              JArr [JObj [(''terms'', JObj [(''SiteName'',
                            JArr [JStr ''NONE'', JStr ''Generic'', JStr ''Obsolete''])])],
                    JObj [(''terms'', JObj [(''VOName'',
                            JArr [JStr ''Unknown'', JStr ''unknown'', JStr ''other''])])]] \<and>
            js_at q (histogram_path @ [Key ''field'']) = JStr ''EndTime'' \<and>
            js_at q [Key ''aggs'', Key ''EndTime'', Key ''aggs''] =
              JObj [(''CoreHours'', JObj [(''sum'', JObj [(''field'', JStr ''CoreHours'')])]),
                    (''Njobs'', JObj [(''sum'', JObj [(''field'', JStr ''Njobs'')])])]"
proof -
  have sent: "requests (snd (graccQuery e start end_time interval offset w)) =
          requests w @ [mk_request (mk_query startStr endStr interval (offsetStr_of e offset))]"
    by (rule graccQuery_sent[OF request_of_rendered[OF assms]])
  show ?thesis
    unfolding Let_def sent
    using timeStr_cases[OF assms(1)] timeStr_cases[OF assms(2)]
    by (simp add: mk_request_def mk_query_def filter_path_def histogram_path_def)
qed

text \<open>C4 with a valid \<^verbatim>\<open>Date\<close> as start and a string as end.\<close>

theorem C4_query_witness:
  "timeStr (env_answering (Inr sample_response)) (TDate (Date (Some 1673464948000))) =
     Inr ''2023-01-11T19:22:28.000Z'' \<and>
   timeStr (env_answering (Inr sample_response)) (TString ''2023-01-12'') = Inr ''2023-01-12'' \<and>
   js_at (query_of (last (requests (snd (graccQuery (env_answering (Inr sample_response))
            (TDate (Date (Some 1673464948000))) (TString ''2023-01-12'') ''1h'' None world0)))))
     (filter_path @ [Idx 0, Key ''range'', Key ''EndTime'']) =
     JObj [(''gte'', JStr ''2023-01-11T19:22:28.000Z''), (''lt'', JStr ''2023-01-12'')]"
proof -
  have a: "timeStr (env_answering (Inr sample_response)) (TDate (Date (Some 1673464948000))) =
     Inr ''2023-01-11T19:22:28.000Z''"
    by (simp add: toISOString_def env_answering_def)
  have b: "timeStr (env_answering (Inr sample_response)) (TString ''2023-01-12'') =
     Inr ''2023-01-12''"
    by simp
  show ?thesis
    using a b C4_query[OF a b, of "''1h''" None world0]
    by (simp add: Let_def)
qed

subsection \<open>C5: interval and offset\<close>

text \<open>
  C5, as amended. Whenever the two time arguments render, the \<^verbatim>\<open>date_histogram\<close> of the query
  carries the interval unchanged as \<^verbatim>\<open>fixed_interval\<close>; a numeric offset \<open>n\<close> is carried as
  the string made of \<^verbatim>\<open>-\<close>, the number printed by Number::toString, and \<^verbatim>\<open>s\<close>; without an
  offset the property is \<^verbatim>\<open>undefined\<close>. No combination of interval and offset is treated in
  any other way.
\<close>

theorem C5_interval_offset:
  assumes "timeStr e start = Inr startStr" and "timeStr e end_time = Inr endStr"
  shows "let q = query_of (last (requests (snd (graccQuery e start end_time interval offset w))))
         in js_at q (histogram_path @ [Key ''fixed_interval'']) = JStr interval \<and>
            js_at q (histogram_path @ [Key ''offset'']) =
              (case offset of
                 None \<Rightarrow> JUndefined
               | Some n \<Rightarrow> JStr (''-'' @ numToString e n @ ''s''))"
proof -
  have sent: "requests (snd (graccQuery e start end_time interval offset w)) =
          requests w @ [mk_request (mk_query startStr endStr interval (offsetStr_of e offset))]"
    by (rule graccQuery_sent[OF request_of_rendered[OF assms]])
  show ?thesis
    unfolding Let_def sent
    by (simp add: mk_request_def mk_query_def histogram_path_def offsetStr_of_def
          split: option.splits)
qed

text \<open>C5 at the interval \<^verbatim>\<open>1h\<close> and the offset 3600.\<close>

theorem C5_interval_offset_witness:
  "timeStr (env_answering (Inr sample_response)) (TString ''2023-01-11'') = Inr ''2023-01-11'' \<and>
   timeStr (env_answering (Inr sample_response)) (TString ''2023-01-12'') = Inr ''2023-01-12'' \<and>
   js_at (query_of (last (requests (snd (graccQuery (env_answering (Inr sample_response))
            (TString ''2023-01-11'') (TString ''2023-01-12'') ''1h'' (Some 3600) world0)))))
     (histogram_path @ [Key ''fixed_interval'']) = JStr ''1h'' \<and>
   js_at (query_of (last (requests (snd (graccQuery (env_answering (Inr sample_response))
            (TString ''2023-01-11'') (TString ''2023-01-12'') ''1h'' (Some 3600) world0)))))
     (histogram_path @ [Key ''offset'']) = JStr ''-3600s''"
proof -
  have a: "timeStr (env_answering (Inr sample_response)) (TString ''2023-01-11'') =
     Inr ''2023-01-11''"
    and b: "timeStr (env_answering (Inr sample_response)) (TString ''2023-01-12'') =
     Inr ''2023-01-12''"
    by simp_all
  have n: "numToString (env_answering (Inr sample_response)) 3600 = ''3600''"
    by (simp add: env_answering_def decimal_def)
  show ?thesis
    using a b C5_interval_offset[OF a b, of "''1h''" "Some 3600" world0]
    by (simp add: Let_def n)
qed

text \<open>
  C5 as stated fails: the caller provides the number 3600, the query carries the string
  \<^verbatim>\<open>-3600s\<close>.
\<close>

theorem C5_counterexample:
  "js_at (query_of (last (requests (snd (graccQuery (env_answering (Inr sample_response))
            (TString ''2023-01-11'') (TString ''2023-01-12'') ''1h'' (Some 3600) world0)))))
     (histogram_path @ [Key ''offset'']) \<noteq> JNum 3600"
  by (simp add: run_defs sample_defs round_samples mk_query_def histogram_path_def)

subsection \<open>C6: the two files\<close>

text \<open>
  C6, as amended. On every OK response whose body parses, graccQuery starts the write of
  the raw body, serialised without indentation, to \<^verbatim>\<open>responseOut.json\<close>. When it returns a
  result, which it does whenever the body has the \<^verbatim>\<open>Root\<close> shape, it has then started the
  write of that result, serialised with indentation 2 as the object of its four fields, to
  \<^verbatim>\<open>dataOut.json\<close>; when it does not return a result the first write is the only one.
\<close>

theorem C6_writes:
  assumes "response_of e start end_time interval offset = Inr res"
    and "ok res" and "json res = Inr body"
  shows "writes (snd (graccQuery e start end_time interval offset w)) =
           writes w @
           \<lparr>wr_file = ''responseOut.json'', wr_data = JSON_stringify body None,
            wr_on_error = ''failed to write to response body output file''\<rparr> #
           (case fst (graccQuery e start end_time interval offset w) of
              Inr (Some result) \<Rightarrow>
                [\<lparr>wr_file = ''dataOut.json'',
                  wr_data =
                    JSON_stringify
                      (JObj [(''took'', took result), (''sumJobs'', sumJobs result),
                             (''sumCpuHours'', sumCpuHours result),
                             (''dataPoints'',
                              JArr (map (\<lambda>p. JObj [(''timestamp'', timestamp p),
                                                     (''nJobs'', nJobs p),
                                                     (''cpuHours'', cpuHours p)])
                                      (dataPoints result)))])
                      (Some 2),
                  wr_on_error = ''failed to write to data output file''\<rparr>]
            | _ \<Rightarrow> []) \<and>
         (Root_shape body r \<longrightarrow>
            fst (graccQuery e start end_time interval offset w) = Inr (Some (typed_result r)))"
proof
  show "Root_shape body r \<longrightarrow>
          fst (graccQuery e start end_time interval offset w) = Inr (Some (typed_result r))"
    using ok_run[OF assms] by simp
  have j: "jsval_of_AnalysisResult =
             (\<lambda>result. JObj [(''took'', took result), (''sumJobs'', sumJobs result),
                             (''sumCpuHours'', sumCpuHours result),
                             (''dataPoints'',
                              JArr (map (\<lambda>p. JObj [(''timestamp'', timestamp p),
                                                     (''nJobs'', nJobs p),
                                                     (''cpuHours'', cpuHours p)])
                                      (dataPoints result)))])"
    by (rule ext) (simp add: jsval_of_AnalysisResult_def jsval_of_JobDataPoint_def)
  show "writes (snd (graccQuery e start end_time interval offset w)) =
           writes w @
           \<lparr>wr_file = ''responseOut.json'', wr_data = JSON_stringify body None,
            wr_on_error = ''failed to write to response body output file''\<rparr> #
           (case fst (graccQuery e start end_time interval offset w) of
              Inr (Some result) \<Rightarrow>
                [\<lparr>wr_file = ''dataOut.json'',
                  wr_data =
                    JSON_stringify
                      (JObj [(''took'', took result), (''sumJobs'', sumJobs result),
                             (''sumCpuHours'', sumCpuHours result),
                             (''dataPoints'',
                              JArr (map (\<lambda>p. JObj [(''timestamp'', timestamp p),
                                                     (''nJobs'', nJobs p),
                                                     (''cpuHours'', cpuHours p)])
                                      (dataPoints result)))])
                      (Some 2),
                  wr_on_error = ''failed to write to data output file''\<rparr>]
            | _ \<Rightarrow> [])"
    unfolding graccQuery_ok_body(1)[OF assms, of w] graccQuery_ok_body(3)[OF assms, of w] j
    by (simp add: bnd_def split: sum.splits)
qed

text \<open>C6 at the sample response: both writes, with what they hold.\<close>

theorem C6_writes_witness:
  "ok sample_response \<and> json sample_response = Inr sample_body \<and>
   writes (snd (graccQuery (env_answering (Inr sample_response))
               (TString ''2023-01-10T19:22:28.000Z'') (TString ''2023-01-11T19:22:28.000Z'')
               ''1h'' None world0)) =
     [\<lparr>wr_file = ''responseOut.json'', wr_data = JSON_stringify sample_body None,
       wr_on_error = ''failed to write to response body output file''\<rparr>,
      \<lparr>wr_file = ''dataOut.json'',
       wr_data =
         JSON_stringify
           (JObj [(''took'', JNum 12), (''sumJobs'', JNum 7), (''sumCpuHours'', JNum 4),
                  (''dataPoints'',
                   JArr [JObj [(''timestamp'', JStr ''2023-01-10T19:00:00.000Z''),
                               (''nJobs'', JNum 4), (''cpuHours'', JNum (3 / 2))],
                         JObj [(''timestamp'', JStr ''2023-01-10T20:00:00.000Z''),
                               (''nJobs'', JNum 3), (''cpuHours'', JNum (5 / 2))]])])
           (Some 2),
       wr_on_error = ''failed to write to data output file''\<rparr>]"
proof -
  have a: "response_of (env_answering (Inr sample_response))
               (TString ''2023-01-10T19:22:28.000Z'') (TString ''2023-01-11T19:22:28.000Z'')
               ''1h'' None = Inr sample_response"
    by (rule sample_answer)
  have b: "ok sample_response" and c: "json sample_response = Inr sample_body"
    by (simp_all add: sample_response_def)
  have d: "Root_shape sample_body sample_root"
    by (simp add: shape_defs sample_body_def sample_root_def bnd_def)
  have t: "typed_result sample_root =
             \<lparr>took = JNum 12, sumJobs = JNum 7, sumCpuHours = JNum 4,
              dataPoints =
                [\<lparr>timestamp = JStr ''2023-01-10T19:00:00.000Z'', nJobs = JNum 4,
                  cpuHours = JNum (3 / 2)\<rparr>,
                 \<lparr>timestamp = JStr ''2023-01-10T20:00:00.000Z'', nJobs = JNum 3,
                  cpuHours = JNum (5 / 2)\<rparr>]\<rparr>"
    by (simp add: typed_result_def sample_root_def point_of_def round_samples)
  have r: "fst (graccQuery (env_answering (Inr sample_response))
          (TString ''2023-01-10T19:22:28.000Z'') (TString ''2023-01-11T19:22:28.000Z'')
          ''1h'' None world0) = Inr (Some (typed_result sample_root))"
    by (rule ok_run[OF a b c d])
  have w: "writes world0 = []" by (simp add: world0_def)
  show ?thesis
    using b c C6_writes[OF a b c, of world0 sample_root]
    by (simp add: r t w)
qed

text \<open>
  C6 as stated fails: on the OK response with the body \<^verbatim>\<open>{}\<close> the raw body is written, then
  \<^verbatim>\<open>body.hits.hits\<close> throws, and nothing is written to \<^verbatim>\<open>dataOut.json\<close>.
\<close>

theorem C6_counterexample:
  "ok empty_response \<and> json empty_response = Inr (JObj []) \<and>
   fst (graccQuery (env_answering (Inr empty_response)) (TString ''2023-01-10T19:22:28.000Z'')
          (TString ''2023-01-11T19:22:28.000Z'') ''1h'' None world0) = Inl TypeError \<and>
   writes (snd (graccQuery (env_answering (Inr empty_response))
          (TString ''2023-01-10T19:22:28.000Z'') (TString ''2023-01-11T19:22:28.000Z'') ''1h''
          None world0)) =
     [\<lparr>wr_file = ''responseOut.json'', wr_data = JSON_stringify (JObj []) None,
       wr_on_error = ''failed to write to response body output file''\<rparr>]"
  by (simp add: run_defs sample_defs)

subsection \<open>C7: the body of an OK response is not validated\<close>

text \<open>
  C7. For every OK response whose body parses, whatever the body is: graccQuery does not
  apply its failure policy, that is, it neither returns \<^verbatim>\<open>null\<close> nor prints an error line.
  If the body has the \<^verbatim>\<open>Root\<close> shape the success path runs to its end and returns the
  result. Nothing guards the accesses: if \<^verbatim>\<open>body.hits.hits\<close> or
  \<^verbatim>\<open>body.aggregations.EndTime.buckets\<close> throws or does not yield an array, the TypeError of
  the access is all that happens, and the promise is rejected with it.
\<close>

theorem C7_unvalidated:
  assumes "response_of e start end_time interval offset = Inr res"
    and "ok res" and "json res = Inr body"
  shows "fst (graccQuery e start end_time interval offset w) \<noteq> Inr None \<and>
         filter is_console_error (console (snd (graccQuery e start end_time interval offset w))) =
           filter is_console_error (console w) \<and>
         (Root_shape body r \<longrightarrow>
            fst (graccQuery e start end_time interval offset w) = Inr (Some (typed_result r))) \<and>
         (\<not> is_array (get_path body [''hits'', ''hits'']) \<or>
          \<not> is_array (get_path body [''aggregations'', ''EndTime'', ''buckets''])
            \<longrightarrow> fst (graccQuery e start end_time interval offset w) = Inl TypeError)"
proof (intro conjI impI)
  show "fst (graccQuery e start end_time interval offset w) \<noteq> Inr None"
    using graccQuery_null_iff[OF assms(1), of w] assms(2) by simp
  show "filter is_console_error (console (snd (graccQuery e start end_time interval offset w))) =
           filter is_console_error (console w)"
    using graccQuery_ok_body(2)[OF assms, of w] by (simp split: sum.splits)
  show "fst (graccQuery e start end_time interval offset w) = Inr (Some (typed_result r))"
    if "Root_shape body r"
    using ok_run[OF assms that] .
  show "fst (graccQuery e start end_time interval offset w) = Inl TypeError"
    if "\<not> is_array (get_path body [''hits'', ''hits'']) \<or>
        \<not> is_array (get_path body [''aggregations'', ''EndTime'', ''buckets''])"
  proof -
    have "isl (fst (graccQuery e start end_time interval offset w))"
      using that graccQuery_ok_body(1)[OF assms, of w]
        totalJobs_of_no_array[of body "numToString e"]
        craft_result_no_array[of body "numToString e"]
      by (auto simp: bnd_def split: sum.splits)
    then obtain err where err: "fst (graccQuery e start end_time interval offset w) = Inl err"
      by (cases "fst (graccQuery e start end_time interval offset w)") auto
    then have "err = TypeError"
      using graccQuery_ok_body(1)[OF assms, of w]
      by (auto simp: bnd_def split: sum.splits dest: totalJobs_of_error craft_result_error)
    with err show ?thesis by simp
  qed
qed

text \<open>C7 at the sample body, which has the shape, and at the empty object, which has not.\<close>

theorem C7_unvalidated_witness:
  "ok sample_response \<and> json sample_response = Inr sample_body \<and>
   Root_shape sample_body sample_root \<and>
   fst (graccQuery (env_answering (Inr sample_response)) (TString ''2023-01-10T19:22:28.000Z'')
          (TString ''2023-01-11T19:22:28.000Z'') ''1h'' None world0) =
     Inr (Some (typed_result sample_root)) \<and>
   ok empty_response \<and> json empty_response = Inr (JObj []) \<and>
   \<not> is_array (get_path (JObj []) [''hits'', ''hits'']) \<and>
   fst (graccQuery (env_answering (Inr empty_response)) (TString ''2023-01-10T19:22:28.000Z'')
          (TString ''2023-01-11T19:22:28.000Z'') ''1h'' None world0) = Inl TypeError \<and>
   console (snd (graccQuery (env_answering (Inr empty_response))
          (TString ''2023-01-10T19:22:28.000Z'') (TString ''2023-01-11T19:22:28.000Z'') ''1h''
          None world0)) = []"
proof -
  have b: "ok sample_response" and c: "json sample_response = Inr sample_body"
    by (simp_all add: sample_response_def)
  have d: "Root_shape sample_body sample_root"
    by (simp add: shape_defs sample_body_def sample_root_def bnd_def)
  have b': "ok empty_response" and c': "json empty_response = Inr (JObj [])"
    by (simp_all add: empty_response_def)
  have n: "\<not> is_array (get_path (JObj []) [''hits'', ''hits''])"
    by (simp add: bnd_def)
  have l: "console (snd (graccQuery (env_answering (Inr empty_response))
          (TString ''2023-01-10T19:22:28.000Z'') (TString ''2023-01-11T19:22:28.000Z'') ''1h''
          None world0)) = []"
    by (simp add: run_defs sample_defs)
  show ?thesis
    using b c d b' c' n l
      C7_unvalidated[OF sample_answer b c, of "''2023-01-10T19:22:28.000Z''"
        "''2023-01-11T19:22:28.000Z''" "''1h''" None world0 sample_root]
      C7_unvalidated[OF sample_answer b' c', of "''2023-01-10T19:22:28.000Z''"
        "''2023-01-11T19:22:28.000Z''" "''1h''" None world0]
    by simp
qed

subsection \<open>C8: one request, never retried\<close>

text \<open>
  C8, as amended. Every invocation of graccQuery issues at most one HTTP request, whatever
  the response is: exactly one, unless \<^verbatim>\<open>start\<close> or \<^verbatim>\<open>end\<close> is an Invalid Date, in which case
  \<^verbatim>\<open>toISOString\<close> throws before \<^verbatim>\<open>fetch\<close> is called and no request is issued.
\<close>

theorem C8_requests:
  "requests (snd (graccQuery e start end_time interval offset w)) =
     requests w @
     (case request_of e start end_time interval offset of Inl err \<Rightarrow> [] | Inr req \<Rightarrow> [req]) \<and>
   (isl (request_of e start end_time interval offset) \<longleftrightarrow>
      start = TDate (Date None) \<or> end_time = TDate (Date None))"
proof (cases "request_of e start end_time interval offset")
  case (Inl err)
  then show ?thesis
    using graccQuery_no_request[OF Inl, of w] request_of_fails[of e start end_time interval offset]
    by simp
next
  case (Inr req)
  then show ?thesis
    using graccQuery_sent[OF Inr, of w] request_of_fails[of e start end_time interval offset]
    by simp
qed

text \<open>C8 at a response that is not OK: one request.\<close>

theorem C8_requests_witness:
  "length (requests (snd (graccQuery (env_answering (Inr failed_response))
      (TString ''2023-01-11'') (TString ''2023-01-12'') ''1h'' None world0))) = 1"
  using C8_requests[of "env_answering (Inr failed_response)" "TString ''2023-01-11''"
      "TString ''2023-01-12''" "''1h''" None world0]
  by (simp add: request_of_def bnd_def world0_def)

text \<open>
  C8 as stated fails: with an Invalid Date as \<^verbatim>\<open>start\<close> the promise is rejected with a
  RangeError and the world is unchanged, so no request was issued.
\<close>

theorem C8_counterexample:
  "fst (graccQuery (env_answering (Inr sample_response)) (TDate (Date None))
      (TString ''2023-01-12'') ''1h'' None world0) = Inl RangeError \<and>
   requests (snd (graccQuery (env_answering (Inr sample_response)) (TDate (Date None))
      (TString ''2023-01-12'') ''1h'' None world0)) = []"
  by (simp add: graccQuery_def toISOString_def world0_def)

subsection \<open>C9: no file is written when the response is not OK\<close>

text \<open>
  C9 says that on a response that is not OK graccQuery returns \<^verbatim>\<open>null\<close> without writing a
  file. No file is written on any such response (lemma \<open>graccQuery_not_ok\<close>). C9 at the
  failing input of C3: no file is written, but the function does not return \<^verbatim>\<open>null\<close>.
\<close>

theorem C9_failing_input:
  "\<not> ok gateway_response \<and>
   fst (graccQuery (env_answering (Inr gateway_response)) (TString ''2023-01-10T19:22:28.000Z'')
     (TString ''2023-01-11T19:22:28.000Z'') ''1h'' None world0) \<noteq> Inr None \<and>
   writes (snd (graccQuery (env_answering (Inr gateway_response))
     (TString ''2023-01-10T19:22:28.000Z'') (TString ''2023-01-11T19:22:28.000Z'') ''1h'' None
     world0)) = []"
  by (simp add: graccQuery_def env_answering_def gateway_response_def world0_def
        offsetStr_of_def)

subsection \<open>C10: the hits do not influence the result\<close>

text \<open>
  C10, as amended. For any two OK response bodies that agree on \<^verbatim>\<open>took\<close> and on
  \<^verbatim>\<open>aggregations.EndTime.buckets\<close>, whatever they hold in \<^verbatim>\<open>hits\<close>: whenever both invocations
  return a result, the two results are equal.
\<close>

theorem C10_hits_irrelevant:
  assumes "response_of e1 start1 end_time1 interval1 offset1 = Inr res1"
    and "ok res1" and "json res1 = Inr body1"
    and "response_of e2 start2 end_time2 interval2 offset2 = Inr res2"
    and "ok res2" and "json res2 = Inr body2"
    and "numToString e1 = numToString e2"
    and "get_prop body1 ''took'' = get_prop body2 ''took''"
    and "get_path body1 [''aggregations'', ''EndTime'', ''buckets''] =
         get_path body2 [''aggregations'', ''EndTime'', ''buckets'']"
    and "fst (graccQuery e1 start1 end_time1 interval1 offset1 w1) = Inr (Some result1)"
    and "fst (graccQuery e2 start2 end_time2 interval2 offset2 w2) = Inr (Some result2)"
  shows "result1 = result2"
proof -
  have "craft_result (numToString e1) body1 = Inr result1"
    by (rule returned_result[OF assms(1-3) assms(10)])
  moreover have "craft_result (numToString e2) body2 = Inr result2"
    by (rule returned_result[OF assms(4-6) assms(11)])
  moreover have "craft_result (numToString e1) body1 = craft_result (numToString e2) body2"
    unfolding assms(7) by (rule craft_result_reads[OF assms(8,9)])
  ultimately show ?thesis by simp
qed

text \<open>C10 at two bodies with the same buckets, one hit in the first and two in the second.\<close>

theorem C10_hits_irrelevant_witness:
  "js_at sample_body [Key ''hits'', Key ''hits''] \<noteq>
     js_at other_hits_body [Key ''hits'', Key ''hits''] \<and>
   get_prop sample_body ''took'' = get_prop other_hits_body ''took'' \<and>
   get_path sample_body [''aggregations'', ''EndTime'', ''buckets''] =
     get_path other_hits_body [''aggregations'', ''EndTime'', ''buckets''] \<and>
   fst (graccQuery (env_answering (Inr sample_response)) (TString ''2023-01-10T19:22:28.000Z'')
          (TString ''2023-01-11T19:22:28.000Z'') ''1h'' None world0) =
     Inr (Some (typed_result sample_root)) \<and>
   fst (graccQuery (env_answering (Inr other_hits_response))
          (TString ''2023-01-10T19:22:28.000Z'') (TString ''2023-01-11T19:22:28.000Z'') ''1h''
          None world0) = Inr (Some (typed_result other_hits_root)) \<and>
   typed_result sample_root = typed_result other_hits_root"
proof -
  have a: "response_of (env_answering (Inr sample_response))
               (TString ''2023-01-10T19:22:28.000Z'') (TString ''2023-01-11T19:22:28.000Z'')
               ''1h'' None = Inr sample_response"
    and a': "response_of (env_answering (Inr other_hits_response))
               (TString ''2023-01-10T19:22:28.000Z'') (TString ''2023-01-11T19:22:28.000Z'')
               ''1h'' None = Inr other_hits_response"
    by (rule sample_answer)+
  have b: "ok sample_response" and c: "json sample_response = Inr sample_body"
    by (simp_all add: sample_response_def)
  have d: "Root_shape sample_body sample_root"
    by (simp add: shape_defs sample_body_def sample_root_def bnd_def)
  have b': "ok other_hits_response" and c': "json other_hits_response = Inr other_hits_body"
    by (simp_all add: other_hits_response_def)
  have d': "Root_shape other_hits_body other_hits_root"
    by (simp add: shape_defs other_hits_body_def other_hits_root_def sample_root_def bnd_def)
  have n: "numToString (env_answering (Inr sample_response)) =
           numToString (env_answering (Inr other_hits_response))"
    by (simp add: env_answering_def)
  have t: "get_prop sample_body ''took'' = get_prop other_hits_body ''took''"
    and u: "get_path sample_body [''aggregations'', ''EndTime'', ''buckets''] =
            get_path other_hits_body [''aggregations'', ''EndTime'', ''buckets'']"
    and h: "js_at sample_body [Key ''hits'', Key ''hits''] \<noteq>
            js_at other_hits_body [Key ''hits'', Key ''hits'']"
    by (simp_all add: sample_body_def other_hits_body_def bnd_def)
  have r: "fst (graccQuery (env_answering (Inr sample_response))
          (TString ''2023-01-10T19:22:28.000Z'') (TString ''2023-01-11T19:22:28.000Z'')
          ''1h'' None world0) = Inr (Some (typed_result sample_root))"
    by (rule ok_run[OF a b c d])
  have r': "fst (graccQuery (env_answering (Inr other_hits_response))
          (TString ''2023-01-10T19:22:28.000Z'') (TString ''2023-01-11T19:22:28.000Z'')
          ''1h'' None world0) = Inr (Some (typed_result other_hits_root))"
    by (rule ok_run[OF a' b' c' d'])
  show ?thesis
    using h t u r r' C10_hits_irrelevant[OF a b c a' b' c' n t u r r']
    by simp
qed

text \<open>
  C10 as stated fails: two OK bodies that agree on \<^verbatim>\<open>took\<close> and on the buckets and differ
  in \<^verbatim>\<open>hits.hits\<close> only, \<^verbatim>\<open>[]\<close> in the first and \<^verbatim>\<open>[{}]\<close> in the second. The first invocation
  returns a result; in the second \<^verbatim>\<open>hit._source.CoreHours\<close> throws and no result is returned.
\<close>

theorem C10_counterexample:
  "get_prop (body_with_hits []) ''took'' = get_prop (body_with_hits [JObj []]) ''took'' \<and>
   get_path (body_with_hits []) [''aggregations'', ''EndTime'', ''buckets''] =
     get_path (body_with_hits [JObj []]) [''aggregations'', ''EndTime'', ''buckets''] \<and>
   fst (graccQuery (env_answering (Inr (response_with_hits [])))
          (TString ''2023-01-10T19:22:28.000Z'') (TString ''2023-01-11T19:22:28.000Z'') ''1h''
          None world0) =
     Inr (Some \<lparr>took = JNum 7, sumJobs = JNum 0, sumCpuHours = JNum 0, dataPoints = []\<rparr>) \<and>
   fst (graccQuery (env_answering (Inr (response_with_hits [JObj []])))
          (TString ''2023-01-10T19:22:28.000Z'') (TString ''2023-01-11T19:22:28.000Z'') ''1h''
          None world0) = Inl TypeError"
  by (simp add: run_defs sample_defs)

end
